theory Spec2Isabelle
  imports Complex_Main
begin

section \<open>Python values used by the image service\<close>

subsection \<open>Strings\<close>

text \<open>
  A Python \<open>str\<close> is a sequence of code points. Strings that come from the caller
  (paths, the requested format, document ids) are lists of code points, so that
  \<open>str.encode()\<close> can fail on them as it does in Python; the fixed ASCII names of
  the program (PIL modes, message prefixes) are plain \<open>string\<close>s.
\<close>

type_synonym pystr = "nat list"

definition str_lit :: "string \<Rightarrow> pystr" where
  "str_lit s = map of_char s"

text \<open>\<open>str.isspace\<close> on one code point (the Unicode whitespace characters).\<close>

definition py_isspace :: "nat \<Rightarrow> bool" where
  "py_isspace c =
     ((9 \<le> c \<and> c \<le> 13) \<or> (28 \<le> c \<and> c \<le> 32) \<or> c = 133 \<or> c = 160 \<or> c = 5760
      \<or> (8192 \<le> c \<and> c \<le> 8202) \<or> c = 8232 \<or> c = 8233 \<or> c = 8239 \<or> c = 8287
      \<or> c = 12288)"

text \<open>\<open>not v or not v.strip()\<close>\<close>

definition blank :: "pystr \<Rightarrow> bool" where
  "blank v = (v = [] \<or> list_all py_isspace v)"

text \<open>\<open>str(n)\<close> for an int.\<close>

fun str_nat :: "nat \<Rightarrow> pystr" where
  "str_nat n = (if n < 10 then [48 + n] else str_nat (n div 10) @ [48 + n mod 10])"

declare str_nat.simps [simp del]

definition str_int :: "int \<Rightarrow> pystr" where
  "str_int i = (if i < 0 then 45 # str_nat (nat (- i)) else str_nat (nat i))"

text \<open>
  \<open>str.lower()\<close>: exact on ASCII; code points above 127 are left as they are
  (Python lowers them by the Unicode tables, which are not modelled).
\<close>

definition py_lower :: "pystr \<Rightarrow> pystr" where
  "py_lower s = map (\<lambda>c. if 65 \<le> c \<and> c \<le> 90 then c + 32 else c) s"

subsection \<open>Exceptions\<close>

text \<open>
  Exceptions are values. \<open>ImageProcessingError\<close> (core.py) carries the fixed
  prefix of its message and the optional offending path; the other constructors are
  the library exceptions the service can meet.
\<close>

datatype error =
    ImageProcessingError string "pystr option"
  | ValidationError
  | ValueError
  | ZeroDivisionError
  | UnicodeEncodeError
  | UnidentifiedImageError
  | OSError
  | HTTPException nat

subsection \<open>Floating point\<close>

text \<open>
  \<open>optimize_image\<close> computes its scaling ratio in Python floats (IEEE binary64).
  A finite float is \<open>Float m e\<close>, denoting \<open>m * 2 ^ e\<close>; every operation rounds the
  exact result to 53 significant bits, ties to even. The exponent is unbounded here:
  overflow and subnormal numbers do not occur for the magnitudes of image sizes.
\<close>

datatype pyfloat = Float (mantissa: int) (exponent: int)

definition float_val :: "pyfloat \<Rightarrow> rat" where
  "float_val x = of_int (mantissa x) * 2 powi exponent x"

fun bit_length :: "nat \<Rightarrow> nat" where
  "bit_length n = (if n = 0 then 0 else Suc (bit_length (n div 2)))"

declare bit_length.simps [simp del]

definition round_half_even_div :: "int \<Rightarrow> int \<Rightarrow> int" where
  "round_half_even_div n d =
     (let q = n div d; r = n mod d
      in if 2 * r < d then q
         else if d < 2 * r then q + 1
         else if even q then q else q + 1)"

definition round_to_double :: "int \<Rightarrow> int \<Rightarrow> pyfloat" where
  "round_to_double n e =
     (let l = bit_length (nat \<bar>n\<bar>)
      in if l \<le> 53 then Float n e
         else Float (sgn n * round_half_even_div \<bar>n\<bar> (2 ^ (l - 53))) (e + int (l - 53)))"

text \<open>\<open>a / b\<close> on two Python ints: the correctly rounded quotient.\<close>

definition int_truediv :: "int \<Rightarrow> int \<Rightarrow> error + pyfloat" where
  "int_truediv a b =
     (if b = 0 then Inl ZeroDivisionError
      else if a = 0 then Inr (Float 0 0)
      else
        let n = \<bar>a\<bar>; d = \<bar>b\<bar>;
            k0 = 52 + int (bit_length (nat d)) - int (bit_length (nat n));
            k = (if (if 0 \<le> k0 then n * 2 ^ nat k0 < d * 2 ^ 52
                     else n < d * 2 ^ 52 * 2 ^ nat (- k0)) then k0 + 1 else k0);
            m = (if 0 \<le> k then round_half_even_div (n * 2 ^ nat k) d
                 else round_half_even_div n (d * 2 ^ nat (- k)))
        in Inr (Float (sgn a * sgn b * m) (- k)))"

text \<open>\<open>w * r\<close> with \<open>w\<close> an int and \<open>r\<close> a float: \<open>w\<close> is converted, then multiplied.\<close>

definition int_mul_float :: "int \<Rightarrow> pyfloat \<Rightarrow> pyfloat" where
  "int_mul_float w r =
     (let fw = round_to_double w 0
      in round_to_double (mantissa fw * mantissa r) (exponent fw + exponent r))"

definition float_less :: "pyfloat \<Rightarrow> pyfloat \<Rightarrow> bool" where
  "float_less x y =
     (let e = min (exponent x) (exponent y)
      in mantissa x * 2 ^ nat (exponent x - e) < mantissa y * 2 ^ nat (exponent y - e))"

text \<open>Python's \<open>min(x, y)\<close> keeps \<open>x\<close> unless \<open>y < x\<close>.\<close>

definition py_min :: "pyfloat \<Rightarrow> pyfloat \<Rightarrow> pyfloat" where
  "py_min x y = (if float_less y x then y else x)"

text \<open>\<open>int(x)\<close> truncates toward zero.\<close>

definition int_of_float :: "pyfloat \<Rightarrow> int" where
  "int_of_float x =
     (let m = mantissa x; e = exponent x
      in if 0 \<le> e then m * 2 ^ nat e else sgn m * (\<bar>m\<bar> div 2 ^ nat (- e)))"

section \<open>Images (PIL)\<close>

text \<open>
  A PIL image is its attributes (\<open>mode\<close>, \<open>size\<close>, \<open>format\<close>, \<open>info\<close>, the EXIF
  table) together with its pixel content. The content is kept symbolically, as the
  tree of PIL calls that produced it: the service never inspects pixel values, it only
  decides which PIL operation is applied to what.
\<close>

datatype info_val = NoneVal | IntVal int | BytesVal "nat list"

datatype resampling = NEAREST | BOX | BILINEAR | HAMMING | BICUBIC | LANCZOS

datatype pixels =
    Source pystr
  | Fill "nat \<times> nat \<times> nat"
  | Paste pixels pixels "pixels option"
  | LastBand pixels
  | Convert string pixels
  | Resample resampling "int \<times> int" pixels

text \<open>
  An EXIF value after the service's decoding of byte fields: a string, or any other
  scalar. \<open>im_exif\<close> is what \<open>image.getexif()\<close> yields, tag ids already looked up
  in PIL's \<open>TAGS\<close> table, or the exception it raises.
\<close>

datatype exif_val = ExifStr pystr | ExifOther int

record image =
  im_mode :: string
  im_width :: int
  im_height :: int
  im_format :: "string option"
  im_info :: "string \<rightharpoonup> info_val"
  im_exif :: "error + (string \<times> exif_val) list"
  im_pixels :: pixels

text \<open>\<open>Image.new(mode, size, color)\<close>\<close>

definition pil_new :: "string \<Rightarrow> int \<times> int \<Rightarrow> nat \<times> nat \<times> nat \<Rightarrow> image" where
  "pil_new m sz color =
     \<lparr>im_mode = m, im_width = fst sz, im_height = snd sz, im_format = None,
      im_info = Map.empty, im_exif = Inr [], im_pixels = Fill color\<rparr>"

text \<open>\<open>image.split()[-1]\<close>: the last band, a single-channel image of the same size.\<close>

definition pil_last_band :: "image \<Rightarrow> image" where
  "pil_last_band img =
     img\<lparr>im_mode := ''L'', im_format := None, im_info := Map.empty, im_exif := Inr [],
         im_pixels := LastBand (im_pixels img)\<rparr>"

text \<open>\<open>bg.paste(fg, mask=...)\<close> changes \<open>bg\<close> in place; the value is \<open>bg\<close> afterwards.\<close>

definition pil_paste :: "image \<Rightarrow> image \<Rightarrow> image option \<Rightarrow> image" where
  "pil_paste bg fg msk =
     bg\<lparr>im_pixels := Paste (im_pixels bg) (im_pixels fg) (map_option im_pixels msk)\<rparr>"

text \<open>
  \<open>image.resize(size, resample)\<close>. PIL refuses a target below one pixel in either
  direction (\<open>ValueError: height and width must be > 0\<close>).
\<close>

definition pil_resize :: "image \<Rightarrow> int \<times> int \<Rightarrow> resampling \<Rightarrow> error + image" where
  "pil_resize img sz flt =
     (if fst sz < 1 \<or> snd sz < 1 then Inl ValueError
      else Inr (img\<lparr>im_width := fst sz, im_height := snd sz, im_format := None,
                    im_pixels := Resample flt sz (im_pixels img)\<rparr>))"

definition im_size :: "image \<Rightarrow> int \<times> int" where
  "im_size img = (im_width img, im_height img)"

section \<open>Configuration (config.py)\<close>

record config =
  max_width :: int
  max_height :: int
  jpeg_quality :: int
  webp_quality :: int
  thumbnail_size :: int
  supported_extensions :: "string list"
  workspace_base :: string
  image_store_folder :: string
  thumbnail_folder :: string
  enable_thumbnails :: bool
  enable_exif_extraction :: bool
  default_output_format :: string

definition default_config :: config where
  "default_config =
     \<lparr>max_width = 2048, max_height = 2048, jpeg_quality = 85, webp_quality = 80,
      thumbnail_size = 200,
      supported_extensions =
        [''.jpg'', ''.jpeg'', ''.png'', ''.webp'', ''.bmp'', ''.tiff'', ''.tif''],
      workspace_base = ''workspace_X'', image_store_folder = ''PlanoraAgent/image_store'',
      thumbnail_folder = ''thumbnails'', enable_thumbnails = True,
      enable_exif_extraction = True, default_output_format = ''webp''\<rparr>"

definition pdf_max_image_size :: "config \<Rightarrow> int \<times> int" where
  "pdf_max_image_size cfg = (max_width cfg, max_height cfg)"

section \<open>Data model (models.py)\<close>

datatype DocumentStatus = PENDING | PROCESSING | COMPLETED | FAILED

record ImageMetadata =
  width :: int
  height :: int
  mode :: string
  format :: string
  file_size :: int
  has_transparency :: bool
  exif :: "(string \<times> exif_val) list option"

text \<open>
  Constructing an \<open>ImageMetadata\<close> runs the pydantic validation: \<open>validate_positive\<close>
  on \<open>width\<close>, \<open>height\<close> and \<open>file_size\<close>, and the field types (\<open>format: str\<close>
  refuses \<open>None\<close>). Any failure raises one \<open>ValidationError\<close>.
\<close>

definition validate_positive :: "int \<Rightarrow> error + int" where
  "validate_positive v = (if v \<le> 0 then Inl ValueError else Inr v)"

definition new_ImageMetadata ::
  "int \<Rightarrow> int \<Rightarrow> string \<Rightarrow> string option \<Rightarrow> int \<Rightarrow> bool
     \<Rightarrow> (string \<times> exif_val) list option \<Rightarrow> error + ImageMetadata" where
  "new_ImageMetadata w h m f sz tr ex =
     (case (validate_positive w, validate_positive h, f, validate_positive sz) of
        (Inr w', Inr h', Some f', Inr sz') \<Rightarrow>
          Inr \<lparr>width = w', height = h', mode = m, format = f', file_size = sz',
               has_transparency = tr, exif = ex\<rparr>
      | _ \<Rightarrow> Inl ValidationError)"

record Page =
  page_number :: int
  text_content :: "pystr option"
  image_path :: pystr
  thumbnail_path :: "pystr option"
  metadata :: ImageMetadata
  document_name :: "pystr option"
  document_id :: "pystr option"

definition new_Page ::
  "int \<Rightarrow> pystr option \<Rightarrow> pystr \<Rightarrow> pystr option \<Rightarrow> ImageMetadata \<Rightarrow> error + Page" where
  "new_Page n txt path thumb md =
     (if n \<le> 0 \<or> blank path then Inl ValidationError
      else Inr \<lparr>page_number = n, text_content = txt, image_path = path,
                thumbnail_path = thumb, metadata = md, document_name = None,
                document_id = None\<rparr>)"

datatype meta_val = MStr pystr | MInt int

record Document =
  doc_id :: pystr
  title :: pystr
  file_path :: pystr
  num_pages :: int
  pages :: "Page list"
  status :: DocumentStatus
  doc_metadata :: "(string \<times> meta_val) list"
  created_at :: pystr

text \<open>
  Constructing a \<open>Document\<close>. The \<open>id\<close> falls back to the field's default factory,
  \<open>doc_\<close> and the first eight hex digits of a fresh UUID, when none is passed. The
  validators run in field order: \<open>validate_title\<close>, \<open>validate_num_pages\<close>, then
  \<open>validate_pages_count\<close>, which compares with \<open>num_pages\<close> only if that field passed.
\<close>

definition validate_pages_count :: "Page list \<Rightarrow> int option \<Rightarrow> error + Page list" where
  "validate_pages_count v num =
     (case num of
        Some n \<Rightarrow> if int (length v) \<noteq> n then Inl ValueError else Inr v
      | None \<Rightarrow> Inr v)"

definition new_Document ::
  "pystr \<Rightarrow> pystr \<Rightarrow> pystr option \<Rightarrow> pystr \<Rightarrow> pystr \<Rightarrow> int \<Rightarrow> Page list \<Rightarrow> DocumentStatus
     \<Rightarrow> (string \<times> meta_val) list \<Rightarrow> error + Document" where
  "new_Document uuid_hex now ident ttl path n pgs st md =
     (let title_ok = \<not> blank ttl;
          num = (if n \<le> 0 then None else Some n)
      in case (title_ok, num, validate_pages_count pgs num) of
           (True, Some n', Inr pgs') \<Rightarrow>
             Inr \<lparr>doc_id = (case ident of None \<Rightarrow> str_lit ''doc_'' @ take 8 uuid_hex
                                        | Some i \<Rightarrow> i),
                  title = ttl, file_path = path, num_pages = n', pages = pgs', status = st,
                  doc_metadata = md, created_at = now\<rparr>
         | _ \<Rightarrow> Inl ValidationError)"

definition update_page_references :: "Document \<Rightarrow> Document" where
  "update_page_references doc =
     doc\<lparr>pages := map (\<lambda>page. page\<lparr>document_name := Some (title doc),
                                       document_id := Some (doc_id doc)\<rparr>) (pages doc)\<rparr>"

section \<open>The world outside: file system, codecs, clock\<close>

text \<open>
  What the operating system and PIL answer during one request. \<open>stat\<close> is the file
  system as the request finds it; \<open>st_mtime\<close> is the modification time as an
  f-string renders it (\<open>str\<close> of the float). A call that can raise yields \<open>Inl\<close> of
  the exception: \<open>image_save\<close> is \<open>image.save\<close> (image, path, format, quality)
  followed by the size of the file it wrote, \<open>pil_thumbnail\<close> is \<open>Image.thumbnail\<close>
  on a copy. \<open>md5_hexdigest\<close> is \<open>hashlib.md5(bytes).hexdigest()\<close>, \<open>temp_file\<close>
  the name \<open>NamedTemporaryFile\<close> hands out, and \<open>convert_ok a b\<close> says whether PIL
  has a conversion from mode \<open>a\<close> to mode \<open>b\<close>.
\<close>

record file_stat =
  st_is_file :: bool
  st_size :: nat
  st_mtime :: pystr

record env =
  stat :: "pystr \<rightharpoonup> file_stat"
  mkdir :: "pystr \<Rightarrow> error + unit"
  image_open :: "pystr \<Rightarrow> error + image"
  image_save :: "image \<Rightarrow> pystr \<Rightarrow> pystr \<Rightarrow> int option \<Rightarrow> error + int"
  pil_thumbnail :: "image \<Rightarrow> int \<times> int \<Rightarrow> resampling \<Rightarrow> error + image"
  time_now :: int
  strftime_now :: pystr
  uuid4_hex :: pystr
  datetime_now :: pystr
  md5_hexdigest :: "nat list \<Rightarrow> pystr"
  temp_file :: pystr
  convert_ok :: "string \<Rightarrow> string \<Rightarrow> bool"

definition path_exists :: "env \<Rightarrow> pystr \<Rightarrow> bool" where
  "path_exists os p = (stat os p \<noteq> None)"

definition path_is_file :: "env \<Rightarrow> pystr \<Rightarrow> bool" where
  "path_is_file os p = (case stat os p of None \<Rightarrow> False | Some st \<Rightarrow> st_is_file st)"

definition getsize :: "env \<Rightarrow> pystr \<Rightarrow> error + int" where
  "getsize os p = (case stat os p of None \<Rightarrow> Inl OSError | Some st \<Rightarrow> Inr (int (st_size st)))"

definition getmtime :: "env \<Rightarrow> pystr \<Rightarrow> error + pystr" where
  "getmtime os p = (case stat os p of None \<Rightarrow> Inl OSError | Some st \<Rightarrow> Inr (st_mtime st))"

section \<open>Normalization (core.py, \<open>ImageProcessor.optimize_image\<close>)\<close>

text \<open>
  \<open>image.convert(mode)\<close>. PIL has no conversion between some pairs of modes and
  raises \<open>ValueError\<close> for them; which pairs it has is PIL's table, \<open>convert_ok\<close>.
\<close>

definition pil_convert :: "env \<Rightarrow> image \<Rightarrow> string \<Rightarrow> error + image" where
  "pil_convert os img m =
     (if convert_ok os (im_mode img) m then
        Inr (img\<lparr>im_mode := m, im_format := None, im_pixels := Convert m (im_pixels img)\<rparr>)
      else Inl ValueError)"

text \<open>The mode step: the first \<open>if\<close>/\<open>elif\<close> of the body.\<close>

definition convert_mode :: "env \<Rightarrow> image \<Rightarrow> error + image" where
  "convert_mode os img =
     (if im_mode img \<in> {''RGBA'', ''LA'', ''P''} then
        let rgb_img = pil_new ''RGB'' (im_size img) (255, 255, 255)
        in if im_mode img = ''RGBA'' then
             Inr (pil_paste rgb_img img (Some (pil_last_band img)))
           else if im_mode img = ''P'' \<and> ''transparency'' \<in> dom (im_info img) then
             (case pil_convert os img ''RGBA'' of
                Inl e \<Rightarrow> Inl e
              | Inr img' \<Rightarrow> Inr (pil_paste rgb_img img' (Some (pil_last_band img'))))
           else Inr (pil_paste rgb_img img None)
      else if im_mode img \<noteq> ''RGB'' then pil_convert os img ''RGB''
      else Inr img)"

text \<open>The size step: the second \<open>if\<close> of the body, with the exceptions it can raise.\<close>

definition resize_if_large :: "config \<Rightarrow> image \<Rightarrow> error + image" where
  "resize_if_large cfg img =
     (let (max_w, max_h) = pdf_max_image_size cfg
      in if max_w < im_width img \<or> max_h < im_height img then
           (case int_truediv max_w (im_width img) of
              Inl e \<Rightarrow> Inl e
            | Inr rw \<Rightarrow>
               (case int_truediv max_h (im_height img) of
                  Inl e \<Rightarrow> Inl e
                | Inr rh \<Rightarrow>
                   let ratio = py_min rw rh;
                       new_width = int_of_float (int_mul_float (im_width img) ratio);
                       new_height = int_of_float (int_mul_float (im_height img) ratio)
                   in pil_resize img (new_width, new_height) LANCZOS))
         else Inr img)"

text \<open>
  The whole body runs under \<open>try\<close>; any exception, of the mode step or of the size
  step, becomes an \<open>ImageProcessingError\<close> without a path.
\<close>

definition optimize_image :: "config \<Rightarrow> env \<Rightarrow> image \<Rightarrow> error + image" where
  "optimize_image cfg os img =
     (case convert_mode os img of
        Inl e \<Rightarrow> Inl (ImageProcessingError ''Failed to optimize image'' None)
      | Inr converted \<Rightarrow>
         (case resize_if_large cfg converted of
            Inl e \<Rightarrow> Inl (ImageProcessingError ''Failed to optimize image'' None)
          | Inr out \<Rightarrow> Inr out))"

section \<open>Metadata extraction (metadata.py)\<close>

definition check_transparency :: "image \<Rightarrow> bool" where
  "check_transparency img =
     (if im_mode img \<in> {''RGBA'', ''LA''} then True
      else if im_mode img = ''P'' then
        (case im_info img ''transparency'' of None \<Rightarrow> False | Some NoneVal \<Rightarrow> False
         | Some _ \<Rightarrow> True)
      else if ''transparency'' \<in> dom (im_info img) then True
      else False)"

record basic_meta =
  bm_width :: int
  bm_height :: int
  bm_mode :: string
  bm_format :: string
  bm_file_size :: int
  bm_has_transparency :: bool

text \<open>
  \<open>extract_basic_metadata\<close>: the dictionary of basic fields, or the zeroed one of the
  \<open>except\<close> branch when reading the file size raises. (The two derived entries
  \<open>aspect_ratio\<close> and \<open>total_pixels\<close> are never read again and are left out.)
\<close>

definition extract_basic_metadata :: "env \<Rightarrow> image \<Rightarrow> pystr \<Rightarrow> basic_meta" where
  "extract_basic_metadata os img path =
     (let format_name = (case im_format img of None \<Rightarrow> ''Unknown''
                         | Some f \<Rightarrow> if f = [] then ''Unknown'' else f);
          size_r = (if path_exists os path then getsize os path else Inr 0)
      in case size_r of
           Inr sz \<Rightarrow>
             \<lparr>bm_width = im_width img, bm_height = im_height img, bm_mode = im_mode img,
              bm_format = format_name, bm_file_size = sz,
              bm_has_transparency = check_transparency img\<rparr>
         | Inl e \<Rightarrow>
             \<lparr>bm_width = 0, bm_height = 0, bm_mode = ''Unknown'', bm_format = ''Unknown'',
              bm_file_size = 0, bm_has_transparency = False\<rparr>)"

definition useful_fields :: "string list" where
  "useful_fields =
     [''Make'', ''Model'', ''DateTime'', ''DateTimeOriginal'',
      ''ExifImageWidth'', ''ExifImageHeight'', ''Orientation'',
      ''XResolution'', ''YResolution'', ''ResolutionUnit'',
      ''Software'', ''ColorSpace'', ''WhiteBalance'']"

text \<open>
  \<open>extract_exif_data\<close>: string values longer than 200 characters are skipped, a later
  entry of the same tag replaces an earlier one, only the useful fields are kept, and
  an empty result, a disabled extraction or any exception gives \<open>None\<close>.
\<close>

definition extract_exif_data :: "config \<Rightarrow> image \<Rightarrow> (string \<times> exif_val) list option" where
  "extract_exif_data cfg img =
     (if \<not> enable_exif_extraction cfg then None
      else case im_exif img of
             Inl e \<Rightarrow> None
           | Inr exif_dict \<Rightarrow>
               if exif_dict = [] then None
               else
                 let kept = filter (\<lambda>(tag, v). case v of ExifStr t \<Rightarrow> \<not> 200 < length t
                                                    | ExifOther _ \<Rightarrow> True) exif_dict;
                     exif_data = map_of (rev kept);
                     useful_exif = List.map_filter
                        (\<lambda>field. map_option (Pair field) (exif_data field)) useful_fields
                 in if useful_exif = [] then None else Some useful_exif)"

text \<open>
  \<open>create_image_metadata\<close>: the \<open>try\<close> body builds the metadata from the basic
  fields, the EXIF data and the processed size; the \<open>except\<close> branch builds the
  minimal one, from the image's own attributes and \<open>file_size=0\<close>.
\<close>

definition create_image_metadata ::
  "config \<Rightarrow> env \<Rightarrow> image \<Rightarrow> pystr \<Rightarrow> (int \<times> int) option \<Rightarrow> error + ImageMetadata" where
  "create_image_metadata cfg os img path processed_size =
     (let basic = extract_basic_metadata os img path;
          exif_data = extract_exif_data cfg img;
          (w, h) = (case processed_size of Some sz \<Rightarrow> sz
                    | None \<Rightarrow> (bm_width basic, bm_height basic))
      in case new_ImageMetadata w h (bm_mode basic) (Some (bm_format basic))
                (bm_file_size basic) (bm_has_transparency basic) exif_data of
           Inr md \<Rightarrow> Inr md
         | Inl e \<Rightarrow>
             new_ImageMetadata (im_width img) (im_height img) (im_mode img) (im_format img)
               0 False None)"

section \<open>Paths (pathlib, POSIX flavour)\<close>

fun split_on :: "nat \<Rightarrow> pystr \<Rightarrow> pystr list" where
  "split_on sep [] = [[]]"
| "split_on sep (c # cs) =
     (if c = sep then [] # split_on sep cs
      else case split_on sep cs of x # xs \<Rightarrow> (c # x) # xs | [] \<Rightarrow> [[c]])"

text \<open>\<open>Path(p).name\<close>: the last component; empty and \<open>.\<close> components do not count.\<close>

definition path_name :: "pystr \<Rightarrow> pystr" where
  "path_name p =
     (case rev (filter (\<lambda>c. c \<noteq> [] \<and> c \<noteq> [46]) (split_on 47 p)) of
        [] \<Rightarrow> [] | n # _ \<Rightarrow> n)"

text \<open>\<open>name.rfind('.')\<close>, and the suffix and stem cut there when \<open>0 < i < len(name) - 1\<close>.\<close>

definition rfind_dot :: "pystr \<Rightarrow> nat option" where
  "rfind_dot s =
     (let r = takeWhile (\<lambda>c. c \<noteq> 46) (rev s)
      in if length r = length s then None else Some (length s - length r - 1))"

definition path_suffix :: "pystr \<Rightarrow> pystr" where
  "path_suffix p =
     (let name = path_name p
      in case rfind_dot name of
           Some i \<Rightarrow> if 0 < i \<and> i + 1 < length name then drop i name else []
         | None \<Rightarrow> [])"

definition path_stem :: "pystr \<Rightarrow> pystr" where
  "path_stem p =
     (let name = path_name p
      in case rfind_dot name of
           Some i \<Rightarrow> if 0 < i \<and> i + 1 < length name then take i name else name
         | None \<Rightarrow> name)"

text \<open>
  \<open>str(a / b)\<close> for a relative \<open>b\<close>. (pathlib also collapses repeated separators;
  that normalisation is not modelled.)
\<close>

definition path_join :: "pystr \<Rightarrow> pystr \<Rightarrow> pystr" where
  "path_join a b = a @ [47] @ b"

definition py_upper :: "pystr \<Rightarrow> pystr" where
  "py_upper s = map (\<lambda>c. if 97 \<le> c \<and> c \<le> 122 then c - 32 else c) s"

text \<open>\<open>x or default\<close> on an optional string: \<open>None\<close> and the empty string are falsy.\<close>

definition or_else :: "pystr option \<Rightarrow> pystr \<Rightarrow> pystr" where
  "or_else x d = (case x of None \<Rightarrow> d | Some v \<Rightarrow> if v = [] then d else v)"

subsection \<open>Paths of the configuration (config.py)\<close>

definition get_workspace_path :: "config \<Rightarrow> pystr option \<Rightarrow> pystr" where
  "get_workspace_path cfg workspace = or_else workspace (str_lit (workspace_base cfg))"

definition get_image_store_path :: "config \<Rightarrow> pystr option \<Rightarrow> pystr" where
  "get_image_store_path cfg workspace =
     path_join (get_workspace_path cfg workspace) (str_lit (image_store_folder cfg))"

definition get_thumbnail_path :: "config \<Rightarrow> pystr option \<Rightarrow> pystr" where
  "get_thumbnail_path cfg workspace =
     path_join (get_image_store_path cfg workspace) (str_lit (thumbnail_folder cfg))"

definition ensure_directories :: "config \<Rightarrow> env \<Rightarrow> pystr option \<Rightarrow> error + unit" where
  "ensure_directories cfg os workspace =
     (case mkdir os (get_image_store_path cfg workspace) of
        Inl e \<Rightarrow> Inl e
      | Inr _ \<Rightarrow> mkdir os (get_thumbnail_path cfg workspace))"

definition is_supported_format :: "config \<Rightarrow> pystr \<Rightarrow> bool" where
  "is_supported_format cfg p =
     (py_lower (path_suffix p) \<in> set (map str_lit (supported_extensions cfg)))"

section \<open>Storage (storage.py)\<close>

text \<open>\<open>str.encode()\<close>: UTF-8, strict; a surrogate code point cannot be encoded.\<close>

definition utf8_char :: "nat \<Rightarrow> error + nat list" where
  "utf8_char c =
     (if c < 128 then Inr [c]
      else if c < 2048 then Inr [192 + c div 64, 128 + c mod 64]
      else if 55296 \<le> c \<and> c \<le> 57343 then Inl UnicodeEncodeError
      else if c < 65536 then
        Inr [224 + c div 4096, 128 + c div 64 mod 64, 128 + c mod 64]
      else if c < 1114112 then
        Inr [240 + c div 262144, 128 + c div 4096 mod 64, 128 + c div 64 mod 64,
             128 + c mod 64]
      else Inl UnicodeEncodeError)"

fun encode :: "pystr \<Rightarrow> error + nat list" where
  "encode [] = Inr []"
| "encode (c # cs) =
     (case utf8_char c of
        Inl e \<Rightarrow> Inl e
      | Inr bs \<Rightarrow> (case encode cs of Inl e \<Rightarrow> Inl e | Inr rest \<Rightarrow> Inr (bs @ rest)))"

text \<open>The string that is hashed: \<open>f"{original_path}_{mtime or ''}"\<close>.\<close>

definition hash_input :: "env \<Rightarrow> pystr \<Rightarrow> error + pystr" where
  "hash_input os original_path =
     (case (if path_exists os original_path then getmtime os original_path else Inr []) of
        Inl e \<Rightarrow> Inl e
      | Inr mtime \<Rightarrow> Inr (original_path @ str_lit ''_'' @ mtime))"

definition generate_filename :: "env \<Rightarrow> pystr \<Rightarrow> pystr \<Rightarrow> error + pystr" where
  "generate_filename os original_path fmt =
     (case hash_input os original_path of
        Inl e \<Rightarrow> Inl e
      | Inr inp \<Rightarrow>
         (case encode inp of
            Inl e \<Rightarrow> Inl e
          | Inr bytes \<Rightarrow>
             let file_hash = take 12 (md5_hexdigest os bytes);
                 extension = (if py_lower fmt = str_lit ''jpeg'' then str_lit ''jpg''
                              else py_lower fmt)
             in Inr (str_lit ''img_'' @ file_hash @ str_lit ''.'' @ extension)))"

definition generate_thumbnail_filename :: "pystr \<Rightarrow> pystr" where
  "generate_thumbnail_filename image_filename =
     str_lit ''thumb_'' @ path_stem image_filename @ str_lit ''.jpg''"

definition save_image ::
  "config \<Rightarrow> env \<Rightarrow> image \<Rightarrow> pystr \<Rightarrow> pystr option \<Rightarrow> pystr \<Rightarrow> error + pystr \<times> int" where
  "save_image cfg os img original_path workspace fmt =
     (case ensure_directories cfg os workspace of
        Inl e \<Rightarrow> Inl e
      | Inr _ \<Rightarrow>
         (case generate_filename os original_path fmt of
            Inl e \<Rightarrow> Inl e
          | Inr filename \<Rightarrow>
             let save_path = path_join (get_image_store_path cfg workspace) filename;
                 (save_format, quality) =
                   (if py_lower fmt \<in> {str_lit ''jpeg'', str_lit ''jpg''}
                      then (str_lit ''JPEG'', Some (jpeg_quality cfg))
                    else if py_lower fmt = str_lit ''webp''
                      then (str_lit ''WEBP'', Some (webp_quality cfg))
                    else (py_upper fmt, None))
             in case image_save os img save_path save_format quality of
                  Inl e \<Rightarrow> Inl e
                | Inr sz \<Rightarrow> Inr (save_path, sz)))"

text \<open>
  \<open>create_thumbnail\<close>: everything after the \<open>enable_thumbnails\<close> test runs under
  \<open>try\<close> (\<open>thumbnail_body\<close>), and the \<open>except\<close> branch returns \<open>None\<close>.
\<close>

definition thumbnail_body ::
  "config \<Rightarrow> env \<Rightarrow> image \<Rightarrow> pystr \<Rightarrow> pystr option \<Rightarrow> error + pystr" where
  "thumbnail_body cfg os img original_filename workspace =
     (let thumbnail_path = get_thumbnail_path cfg workspace
      in case mkdir os thumbnail_path of
           Inl e \<Rightarrow> Inl e
         | Inr _ \<Rightarrow>
            (case pil_thumbnail os img (thumbnail_size cfg, thumbnail_size cfg) LANCZOS of
               Inl e \<Rightarrow> Inl e
             | Inr thumbnail \<Rightarrow>
                let thumbnail' =
                      (if im_mode thumbnail \<in> {''RGBA'', ''LA'', ''P''} then
                         let rgb_thumbnail =
                               pil_new ''RGB'' (im_size thumbnail) (255, 255, 255)
                         in if im_mode thumbnail = ''RGBA'' then
                              pil_paste rgb_thumbnail thumbnail
                                (Some (pil_last_band thumbnail))
                            else pil_paste rgb_thumbnail thumbnail None
                       else thumbnail);
                    thumb_save_path =
                      path_join thumbnail_path (generate_thumbnail_filename original_filename)
                in case image_save os thumbnail' thumb_save_path (str_lit ''JPEG'') (Some 85) of
                     Inl e \<Rightarrow> Inl e
                   | Inr _ \<Rightarrow> Inr thumb_save_path))"

definition create_thumbnail ::
  "config \<Rightarrow> env \<Rightarrow> image \<Rightarrow> pystr \<Rightarrow> pystr option \<Rightarrow> pystr option" where
  "create_thumbnail cfg os img original_filename workspace =
     (if \<not> enable_thumbnails cfg then None
      else case thumbnail_body cfg os img original_filename workspace of
             Inl e \<Rightarrow> None
           | Inr p \<Rightarrow> Some p)"

section \<open>The orchestrator (core.py, \<open>ImageProcessor\<close>)\<close>

definition validate_file :: "config \<Rightarrow> env \<Rightarrow> pystr \<Rightarrow> error + unit" where
  "validate_file cfg os fpath =
     (if fpath = [] then Inl (ImageProcessingError ''File path is required'' None)
      else if \<not> path_exists os fpath then
        Inl (ImageProcessingError ''File not found'' (Some fpath))
      else if \<not> path_is_file os fpath then
        Inl (ImageProcessingError ''Path is not a file'' (Some fpath))
      else if getsize os fpath = Inr 0 then
        Inl (ImageProcessingError ''File is empty'' (Some fpath))
      else if \<not> is_supported_format cfg fpath then
        Inl (ImageProcessingError ''Unsupported format'' (Some fpath))
      else Inr ())"

definition load_image :: "env \<Rightarrow> pystr \<Rightarrow> error + image" where
  "load_image os fpath =
     (case image_open os fpath of
        Inr img \<Rightarrow> Inr img
      | Inl e \<Rightarrow>
         if e = UnidentifiedImageError then
           Inl (ImageProcessingError ''Unrecognized image format'' (Some fpath))
         else Inl (ImageProcessingError ''Failed to load image'' (Some fpath)))"

text \<open>
  The steps a request has started, in order; they make visible which stages ran when
  a call fails.
\<close>

datatype step = Decode | Normalize | Persist | Thumbnail | Metadata

definition process_image_sync ::
  "config \<Rightarrow> env \<Rightarrow> pystr \<Rightarrow> pystr option \<Rightarrow> pystr option
     \<Rightarrow> (error + Page \<times> pystr \<times> pystr option) \<times> step list" where
  "process_image_sync cfg os fpath workspace output_format =
     (let fmt = or_else output_format (str_lit (default_output_format cfg));
          failed = Inl (ImageProcessingError ''Image processing failed'' (Some fpath))
      in case load_image os fpath of
           Inl e \<Rightarrow> (failed, [Decode])
         | Inr original_image \<Rightarrow>
            (case optimize_image cfg os original_image of
               Inl e \<Rightarrow> (failed, [Decode, Normalize])
             | Inr optimized_image \<Rightarrow>
                (case save_image cfg os optimized_image fpath workspace fmt of
                   Inl e \<Rightarrow> (failed, [Decode, Normalize, Persist])
                 | Inr (saved_path, fsize) \<Rightarrow>
                    let thumb = (if enable_thumbnails cfg then
                                   create_thumbnail cfg os optimized_image
                                     (path_name saved_path) workspace
                                 else None);
                        steps = [Decode, Normalize, Persist]
                                @ (if enable_thumbnails cfg then [Thumbnail] else [])
                                @ [Metadata]
                    in case create_image_metadata cfg os original_image fpath
                              (Some (im_size optimized_image)) of
                         Inl e \<Rightarrow> (failed, steps)
                       | Inr md \<Rightarrow>
                          (case new_Page 1 None saved_path thumb (md\<lparr>file_size := fsize\<rparr>) of
                             Inl e \<Rightarrow> (failed, steps)
                           | Inr page \<Rightarrow> (Inr (page, saved_path, thumb), steps)))))"

definition create_document :: "env \<Rightarrow> Page \<Rightarrow> pystr \<Rightarrow> pystr option \<Rightarrow> error + Document" where
  "create_document os page original_fpath ident =
     (let ttl = path_name original_fpath;
          md = [(''original_file'', MStr original_fpath),
                (''processor'', MStr (str_lit ''ImageProcessor'')),
                (''created_at'', MStr (strftime_now os)),
                (''file_size'', MInt (file_size (metadata page))),
                (''image_format'', MStr (str_lit (format (metadata page)))),
                (''dimensions'', MStr (str_int (width (metadata page)) @ str_lit ''x''
                                        @ str_int (height (metadata page))))]
      in case new_Document (uuid4_hex os) (datetime_now os)
                (Some (or_else ident (str_lit ''doc_img_'' @ str_int (time_now os))))
                ttl (image_path page) 1 [page] COMPLETED md of
           Inl e \<Rightarrow> Inl (ImageProcessingError ''Document creation failed'' None)
         | Inr document \<Rightarrow> Inr (update_page_references document))"

text \<open>
  \<open>process_sync\<close>; the awaitable \<open>process\<close> runs the same steps on a worker thread.
\<close>

definition process_sync ::
  "config \<Rightarrow> env \<Rightarrow> pystr \<Rightarrow> pystr option \<Rightarrow> pystr option \<Rightarrow> pystr option
     \<Rightarrow> (error + Document) \<times> step list" where
  "process_sync cfg os fpath workspace output_format ident =
     (case validate_file cfg os fpath of
        Inl e \<Rightarrow> (Inl e, [])
      | Inr _ \<Rightarrow>
         (case ensure_directories cfg os workspace of
            Inl e \<Rightarrow> (Inl (ImageProcessingError ''Processing failed'' (Some fpath)), [])
          | Inr _ \<Rightarrow>
             (case process_image_sync cfg os fpath workspace output_format of
                (Inl e, steps) \<Rightarrow> (Inl e, steps)
              | (Inr (page, saved_path, thumb), steps) \<Rightarrow>
                 (create_document os page fpath ident, steps))))"

section \<open>The HTTP endpoint (api.py, \<open>process_image\<close>)\<close>



section \<open>Example inputs\<close>

definition rgba_500 :: image where
  "rgba_500 =
     \<lparr>im_mode = ''RGBA'', im_width = 500, im_height = 500, im_format = None,
      im_info = Map.empty, im_exif = Inr [], im_pixels = Source (str_lit ''in.png'')\<rparr>"

text \<open>What the mode step makes of \<open>rgba_500\<close>: pasted on white through its alpha band.\<close>

definition rgba_500_flat :: image where
  "rgba_500_flat =
     pil_paste (pil_new ''RGB'' (500, 500) (255, 255, 255)) rgba_500
       (Some (pil_last_band rgba_500))"

definition photo_stat :: file_stat where
  "photo_stat = \<lparr>st_is_file = True, st_size = 1024, st_mtime = str_lit ''1700000000.5''\<rparr>"

definition demo_env :: env where
  "demo_env =
     \<lparr>stat = (\<lambda>p. if p = str_lit ''photo.jpg'' then Some photo_stat else None),
      mkdir = (\<lambda>p. Inr ()),
      image_open = (\<lambda>p. Inr rgba_500),
      image_save = (\<lambda>img p f q. Inr 2048),
      pil_thumbnail = (\<lambda>img sz flt. Inr (img\<lparr>im_width := 200, im_height := 200\<rparr>)),
      time_now = 1700000000,
      strftime_now = str_lit ''2023-11-14T22:13:20'',
      uuid4_hex = str_lit ''0123456789abcdef0123456789abcdef'',
      datetime_now = str_lit ''2023-11-14 22:13:20'',
      md5_hexdigest = (\<lambda>bs. str_lit ''d41d8cd98f00b204e9800998ecf8427e''),
      temp_file = str_lit ''photo.jpg'',
      convert_ok = (\<lambda>a b. True)\<rparr>"

text \<open>The same world, but every thumbnail resize raises.\<close>

definition no_thumb_env :: env where
  "no_thumb_env = demo_env\<lparr>pil_thumbnail := (\<lambda>img sz flt. Inl OSError)\<rparr>"

definition photo :: pystr where "photo = str_lit ''photo.jpg''"

definition demo_page :: Page where
  "demo_page =
     \<lparr>page_number = 1, text_content = None,
      image_path = str_lit ''workspace_X/PlanoraAgent/image_store/img_d41d8cd98f00.webp'',
      thumbnail_path = None,
      metadata = \<lparr>width = 500, height = 500, mode = ''RGBA'', format = ''Unknown'',
                  file_size = 2048, has_transparency = True, exif = None\<rparr>,
      document_name = None, document_id = None\<rparr>"

definition demo_store :: pystr where
  "demo_store = str_lit ''workspace_X/PlanoraAgent/image_store''"

text \<open>
  The spec's wording of a generated id, for comparison: \<open>doc_\<close> followed by a
  non-empty token of lower-case hex digits.
\<close>

definition is_hex_digit :: "nat \<Rightarrow> bool" where
  "is_hex_digit c = ((48 \<le> c \<and> c \<le> 57) \<or> (97 \<le> c \<and> c \<le> 102))"

definition random_hex_token_id :: "pystr \<Rightarrow> bool" where
  "random_hex_token_id s =
     (take 4 s = str_lit ''doc_'' \<and> drop 4 s \<noteq> [] \<and> list_all is_hex_digit (drop 4 s))"


definition la_100 :: image where
  "la_100 =
     \<lparr>im_mode = ''LA'', im_width = 100, im_height = 100, im_format = None,
      im_info = Map.empty, im_exif = Inr [], im_pixels = Source (str_lit ''gray.png'')\<rparr>"

definition rgb_4000_3001 :: image where
  "rgb_4000_3001 =
     \<lparr>im_mode = ''RGB'', im_width = 4000, im_height = 3001, im_format = None,
      im_info = Map.empty, im_exif = Inr [], im_pixels = Source (str_lit ''big.jpg'')\<rparr>"

text \<open>
  The spec's wording of the size step, for comparison: the same ratio, applied to
  both dimensions, each result rounded to the nearest integer (Python's \<open>round\<close>).
\<close>

definition round_of_float :: "pyfloat \<Rightarrow> int" where
  "round_of_float x =
     (let m = mantissa x; e = exponent x
      in if 0 \<le> e then m * 2 ^ nat e
         else sgn m * round_half_even_div \<bar>m\<bar> (2 ^ nat (- e)))"

definition spec_rounded_size :: "config \<Rightarrow> image \<Rightarrow> error + int \<times> int" where
  "spec_rounded_size cfg img =
     (case int_truediv (max_width cfg) (im_width img) of
        Inl e \<Rightarrow> Inl e
      | Inr rw \<Rightarrow>
         (case int_truediv (max_height cfg) (im_height img) of
            Inl e \<Rightarrow> Inl e
          | Inr rh \<Rightarrow>
             let ratio = py_min rw rh
             in Inr (round_of_float (int_mul_float (im_width img) ratio),
                     round_of_float (int_mul_float (im_height img) ratio))))"






section \<open>Properties of normalization\<close>

lemma convert_mode_size: "convert_mode os img = Inr c \<Longrightarrow> im_size c = im_size img"
  by (auto simp: convert_mode_def im_size_def pil_new_def pil_paste_def pil_convert_def Let_def
      split: if_splits sum.splits)

lemma convert_mode_mode: "convert_mode os img = Inr c \<Longrightarrow> im_mode c = ''RGB''"
  by (auto simp: convert_mode_def pil_new_def pil_paste_def pil_convert_def Let_def
      split: if_splits sum.splits)

lemma resize_if_large_within:
  "im_width img \<le> max_width cfg \<Longrightarrow> im_height img \<le> max_height cfg
     \<Longrightarrow> resize_if_large cfg img = Inr img"
  by (simp add: resize_if_large_def pdf_max_image_size_def)

lemma optimize_image_within:
  assumes "im_width img \<le> max_width cfg" "im_height img \<le> max_height cfg"
    and c: "convert_mode os img = Inr c"
  shows "optimize_image cfg os img = Inr c"
proof -
  from convert_mode_size [OF c]
  have "im_width c = im_width img" "im_height c = im_height img"
    by (simp_all add: im_size_def)
  with assms have "resize_if_large cfg c = Inr c"
    by (simp add: resize_if_large_within)
  then show ?thesis by (simp add: optimize_image_def c)
qed

lemma optimize_image_Inr:
  "optimize_image cfg os img = Inr out \<Longrightarrow>
     \<exists>c. convert_mode os img = Inr c \<and> resize_if_large cfg c = Inr out"
  by (auto simp: optimize_image_def split: sum.splits)

text \<open>
  C7. No upscaling: for an image whose width and height are both within the
  configured maximum, whatever \<open>optimize_image\<close> returns has exactly the width and
  height the image came with (it is the mode-normalized image, not resized); and
  \<open>optimize_image\<close> does return whenever the mode step does not raise.
\<close>

theorem optimize_image_within_bounds:
  assumes "im_width img \<le> max_width cfg" and "im_height img \<le> max_height cfg"
  shows "(optimize_image cfg os img = Inr out \<longrightarrow>
            im_width out = im_width img \<and> im_height out = im_height img
            \<and> convert_mode os img = Inr out)
         \<and> (convert_mode os img = Inr c \<longrightarrow> optimize_image cfg os img = Inr c)"
proof (intro conjI impI)
  assume o: "optimize_image cfg os img = Inr out"
  from optimize_image_Inr [OF o] obtain c' where
    c': "convert_mode os img = Inr c'" and r: "resize_if_large cfg c' = Inr out" by blast
  from optimize_image_within [OF assms c'] o have eq: "out = c'" by simp
  from convert_mode_size [OF c'] eq
  show "im_width out = im_width img" "im_height out = im_height img"
    by (simp_all add: im_size_def)
  from c' eq show "convert_mode os img = Inr out" by simp
next
  assume "convert_mode os img = Inr c"
  then show "optimize_image cfg os img = Inr c" by (rule optimize_image_within [OF assms])
qed

lemma demo_convert_mode:
  "convert_mode demo_env rgba_500 = Inr rgba_500_flat"
  "convert_mode no_thumb_env rgba_500 = Inr rgba_500_flat"
  by (simp_all add: convert_mode_def rgba_500_def rgba_500_flat_def im_size_def)

lemma demo_optimize:
  "optimize_image default_config demo_env rgba_500 = Inr rgba_500_flat"
  "optimize_image default_config no_thumb_env rgba_500 = Inr rgba_500_flat"
  by (rule optimize_image_within, simp add: default_config_def rgba_500_def,
      simp add: default_config_def rgba_500_def, rule demo_convert_mode)+

theorem optimize_image_within_bounds_witness:
  "im_width rgba_500 \<le> max_width default_config
   \<and> im_height rgba_500 \<le> max_height default_config
   \<and> optimize_image default_config demo_env rgba_500 = Inr rgba_500_flat
   \<and> im_width rgba_500_flat = 500 \<and> im_height rgba_500_flat = 500"
proof -
  have w: "im_width rgba_500 \<le> max_width default_config"
    by (simp add: rgba_500_def default_config_def)
  have h: "im_height rgba_500 \<le> max_height default_config"
    by (simp add: rgba_500_def default_config_def)
  from optimize_image_within_bounds [OF w h, of demo_env rgba_500_flat rgba_500_flat]
  have o: "optimize_image default_config demo_env rgba_500 = Inr rgba_500_flat"
    and d: "optimize_image default_config demo_env rgba_500 = Inr rgba_500_flat \<longrightarrow>
            im_width rgba_500_flat = im_width rgba_500
            \<and> im_height rgba_500_flat = im_height rgba_500
            \<and> convert_mode demo_env rgba_500 = Inr rgba_500_flat"
    using demo_convert_mode(1) by blast+
  from d o have "im_width rgba_500_flat = 500" "im_height rgba_500_flat = 500"
    by (simp_all add: rgba_500_def)
  with w h o show ?thesis by simp
qed

section \<open>Supporting lemmas\<close>

lemma new_ImageMetadata_zero_size:
  "new_ImageMetadata w h m f 0 tr ex = Inl ValidationError"
  by (simp add: new_ImageMetadata_def validate_positive_def split: sum.splits option.splits)

lemma new_ImageMetadata_Inr:
  "new_ImageMetadata w h m f sz tr ex = Inr md \<Longrightarrow>
     0 < width md \<and> 0 < height md \<and> 0 < file_size md \<and> width md = w \<and> height md = h"
  by (auto simp: new_ImageMetadata_def validate_positive_def split: sum.splits option.splits if_splits)

lemma create_image_metadata_cases:
  "create_image_metadata cfg os img path ps = Inl ValidationError
   \<or> (\<exists>md. create_image_metadata cfg os img path ps = Inr md
         \<and> 0 < width md \<and> 0 < height md \<and> 0 < file_size md)"
  by (auto simp: create_image_metadata_def Let_def new_ImageMetadata_zero_size
      split: prod.splits sum.splits dest: new_ImageMetadata_Inr)

lemma new_Document_num_pages':
  "new_Document u now i t p n pgs st md = Inr d \<Longrightarrow> num_pages d = int (length (pages d)) \<and> 0 < num_pages d"
  by (auto simp: new_Document_def validate_pages_count_def Let_def
      split: bool.splits option.splits sum.splits if_splits)

lemma create_document_pages:
  "create_document os page p i = Inr d \<Longrightarrow> num_pages d = 1 \<and> length (pages d) = 1 \<and> status d = COMPLETED
     \<and> doc_id d = or_else i (str_lit ''doc_img_'' @ str_int (time_now os))
     \<and> map thumbnail_path (pages d) = [thumbnail_path page] \<and> file_path d = image_path page"
  by (auto simp: create_document_def new_Document_def validate_pages_count_def Let_def
      update_page_references_def
      split: bool.splits option.splits sum.splits if_splits)

lemma process_sync_doc:
  "fst (process_sync cfg os fp ws fmt i) = Inr d \<Longrightarrow>
     \<exists>page. create_document os page fp i = Inr d"
  by (auto simp: process_sync_def split: sum.splits prod.splits)

lemma demo_id: "str_lit ''doc_img_'' @ str_int 1700000000 = str_lit ''doc_img_1700000000''"
  by (simp add: str_int_def str_lit_def str_nat.simps)


lemma validate_file_ok:
  "validate_file cfg os p = Inr () \<Longrightarrow>
     \<exists>st. stat os p = Some st \<and> 0 < st_size st \<and> is_supported_format cfg p"
  by (auto simp: validate_file_def path_exists_def getsize_def split: if_splits option.splits)

lemma create_image_metadata_ok:
  assumes "stat os p = Some st" "0 < st_size st" "0 < w" "0 < h"
  shows "\<exists>md. create_image_metadata cfg os img p (Some (w, h)) = Inr md"
  using assms
  by (simp add: create_image_metadata_def extract_basic_metadata_def path_exists_def
      getsize_def new_ImageMetadata_def validate_positive_def Let_def)

lemma resize_if_large_pos:
  "resize_if_large cfg img = Inr out \<Longrightarrow> 0 < im_width img \<Longrightarrow> 0 < im_height img
     \<Longrightarrow> 0 < im_width out \<and> 0 < im_height out"
  by (auto simp: resize_if_large_def pdf_max_image_size_def pil_resize_def Let_def
      split: if_splits sum.splits)

lemma optimize_image_pos:
  assumes "optimize_image cfg os img = Inr out" "0 < im_width img" "0 < im_height img"
  shows "0 < im_width out \<and> 0 < im_height out"
proof -
  from optimize_image_Inr [OF assms(1)] obtain c where
    c: "convert_mode os img = Inr c" and r: "resize_if_large cfg c = Inr out" by blast
  from convert_mode_size [OF c]
  have "im_width c = im_width img" "im_height c = im_height img"
    by (simp_all add: im_size_def)
  with resize_if_large_pos [OF r] assms show ?thesis by simp
qed

lemma not_blank_mem: "c \<in> set v \<Longrightarrow> \<not> py_isspace c \<Longrightarrow> \<not> blank v"
  by (auto simp: blank_def list_all_iff)

lemma not_blank_path_join: "\<not> blank (path_join a b)"
  by (rule not_blank_mem [of 47]) (simp_all add: path_join_def py_isspace_def)

lemma save_image_not_blank:
  "save_image cfg os img p ws fmt = Inr (saved, sz) \<Longrightarrow> \<not> blank saved"
  by (auto simp: save_image_def Let_def not_blank_path_join split: sum.splits prod.splits if_splits)

lemma rfind_dot_Some:
  assumes "rfind_dot s = Some i"
  shows "46 \<in> set s"
proof (rule ccontr)
  assume "46 \<notin> set s"
  then have tw: "takeWhile (\<lambda>c. c \<noteq> 46) (rev s) = rev s"
    by (auto simp: takeWhile_eq_all_conv)
  have "rfind_dot s = None"
    unfolding rfind_dot_def Let_def tw by simp
  with assms show False by simp
qed

lemma supported_name_not_blank:
  assumes "is_supported_format cfg p" "[] \<notin> set (supported_extensions cfg)"
  shows "\<not> blank (path_name p)"
proof -
  have "path_suffix p \<noteq> []"
  proof
    assume "path_suffix p = []"
    with assms(1) have "[] \<in> set (map str_lit (supported_extensions cfg))"
      by (simp add: is_supported_format_def py_lower_def)
    with assms(2) show False by (auto simp: str_lit_def)
  qed
  then obtain i where "rfind_dot (path_name p) = Some i"
    by (auto simp: path_suffix_def Let_def split: option.splits)
  from rfind_dot_Some [OF this] show ?thesis
    by (rule not_blank_mem) (simp add: py_isspace_def)
qed

lemma create_document_ok:
  assumes "\<not> blank (path_name p)"
  shows "\<exists>d. create_document os page p i = Inr d"
  using assms
  by (simp add: create_document_def new_Document_def validate_pages_count_def Let_def)

lemma new_Page_ok:
  "\<not> blank path \<Longrightarrow>
     new_Page 1 txt path thumb md =
       Inr \<lparr>page_number = 1, text_content = txt, image_path = path, thumbnail_path = thumb,
            metadata = md, document_name = None, document_id = None\<rparr>"
  by (simp add: new_Page_def)

lemma process_image_sync_ok:
  assumes l: "image_open os p = Inr img"
    and o: "optimize_image cfg os img = Inr opt"
    and s: "save_image cfg os opt p ws (or_else fmt (str_lit (default_output_format cfg)))
              = Inr (saved, sz)"
    and md: "create_image_metadata cfg os img p (Some (im_size opt)) = Inr md"
    and pg: "new_Page 1 None saved
               (if enable_thumbnails cfg then create_thumbnail cfg os opt (path_name saved) ws
                else None) (md\<lparr>file_size := sz\<rparr>) = Inr page"
  shows "process_image_sync cfg os p ws fmt =
     (Inr (page, saved,
           if enable_thumbnails cfg then create_thumbnail cfg os opt (path_name saved) ws
           else None),
      [Decode, Normalize, Persist]
        @ (if enable_thumbnails cfg then [Thumbnail] else []) @ [Metadata])"
proof -
  have ld: "load_image os p = Inr img"
    using l by (simp add: load_image_def)
  show ?thesis
    by (simp only: process_image_sync_def Let_def ld o s md pg sum.case prod.case)
qed


lemma process_sync_succeeds:
  assumes v: "validate_file cfg os p = Inr ()"
    and d: "ensure_directories cfg os ws = Inr ()"
    and l: "image_open os p = Inr img"
    and pos: "0 < im_width img" "0 < im_height img"
    and o: "optimize_image cfg os img = Inr opt"
    and s: "save_image cfg os opt p ws (or_else fmt (str_lit (default_output_format cfg)))
              = Inr (saved, sz)"
    and ext: "[] \<notin> set (supported_extensions cfg)"
  shows "\<exists>doc. process_sync cfg os p ws fmt ident =
            (Inr doc, [Decode, Normalize, Persist]
                      @ (if enable_thumbnails cfg then [Thumbnail] else []) @ [Metadata])
          \<and> status doc = COMPLETED \<and> file_path doc = saved \<and> num_pages doc = 1
          \<and> length (pages doc) = 1
          \<and> map thumbnail_path (pages doc) =
              [if enable_thumbnails cfg then create_thumbnail cfg os opt (path_name saved) ws
               else None]"
proof -
  from validate_file_ok [OF v] obtain st where
    st: "stat os p = Some st" "0 < st_size st" and sup: "is_supported_format cfg p"
    by blast
  from optimize_image_pos [OF o pos] have opos: "0 < im_width opt" "0 < im_height opt"
    by simp_all
  from create_image_metadata_ok [OF st opos] obtain md where
    md: "create_image_metadata cfg os img p (Some (im_size opt)) = Inr md"
    unfolding im_size_def by blast
  define thumb where
    "thumb = (if enable_thumbnails cfg then create_thumbnail cfg os opt (path_name saved) ws
              else None)"
  define page where
    "page = \<lparr>page_number = 1, text_content = None, image_path = saved,
             thumbnail_path = thumb, metadata = md\<lparr>file_size := sz\<rparr>,
             document_name = None, document_id = None\<rparr>"
  have pg: "new_Page 1 None saved thumb (md\<lparr>file_size := sz\<rparr>) = Inr page"
    unfolding page_def by (rule new_Page_ok) (rule save_image_not_blank [OF s])
  have pis: "process_image_sync cfg os p ws fmt =
     (Inr (page, saved, thumb), [Decode, Normalize, Persist]
        @ (if enable_thumbnails cfg then [Thumbnail] else []) @ [Metadata])"
    unfolding thumb_def
    by (rule process_image_sync_ok [OF l o s md]) (rule pg [unfolded thumb_def])
  from create_document_ok [OF supported_name_not_blank [OF sup ext]]
  obtain doc where doc: "create_document os page p ident = Inr doc" by blast
  have ps: "process_sync cfg os p ws fmt ident =
     (Inr doc, [Decode, Normalize, Persist]
        @ (if enable_thumbnails cfg then [Thumbnail] else []) @ [Metadata])"
    by (simp only: process_sync_def v d pis doc sum.case prod.case)
  have tp: "thumbnail_path page = thumb" "image_path page = saved"
    by (simp_all add: page_def)
  from create_document_pages [OF doc]
  have props: "status doc = COMPLETED \<and> file_path doc = saved \<and> num_pages doc = 1
        \<and> length (pages doc) = 1 \<and> map thumbnail_path (pages doc) = [thumb]"
    by (simp only: tp)
  have "process_sync cfg os p ws fmt ident =
            (Inr doc, [Decode, Normalize, Persist]
                      @ (if enable_thumbnails cfg then [Thumbnail] else []) @ [Metadata])
          \<and> status doc = COMPLETED \<and> file_path doc = saved \<and> num_pages doc = 1
          \<and> length (pages doc) = 1
          \<and> map thumbnail_path (pages doc) = [thumb]"
    using ps props by (simp only: simp_thms)
  then show ?thesis unfolding thumb_def by (rule exI)
qed

subsection \<open>The example request\<close>

lemma photo_name: "path_name photo = photo"
  by (simp add: photo_def path_name_def str_lit_def)

lemma photo_suffix: "path_suffix photo = str_lit ''.jpg''"
  by (simp add: path_suffix_def photo_name rfind_dot_def Let_def) (simp add: photo_def str_lit_def)

lemma demo_validate: "validate_file default_config demo_env photo = Inr ()"
  by (simp add: validate_file_def path_exists_def path_is_file_def getsize_def
      is_supported_format_def photo_suffix)
     (simp add: demo_env_def photo_def photo_stat_def default_config_def str_lit_def py_lower_def)

lemma demo_stat [simp]: "stat demo_env photo = Some photo_stat" "stat no_thumb_env photo = Some photo_stat"
  by (simp_all add: demo_env_def no_thumb_env_def photo_def)

lemma no_thumb_validate: "validate_file default_config no_thumb_env photo = Inr ()"
  by (simp add: validate_file_def path_exists_def path_is_file_def getsize_def
      is_supported_format_def photo_suffix)
     (simp add: photo_def photo_stat_def default_config_def str_lit_def py_lower_def)

lemma demo_dirs: "ensure_directories default_config demo_env ws = Inr ()"
  "ensure_directories default_config no_thumb_env ws = Inr ()"
  by (simp_all add: ensure_directories_def demo_env_def no_thumb_env_def)

lemma demo_hash_input: "hash_input demo_env photo = Inr (str_lit ''photo.jpg_1700000000.5'')"
  "hash_input no_thumb_env photo = Inr (str_lit ''photo.jpg_1700000000.5'')"
  by (simp_all add: hash_input_def path_exists_def getmtime_def photo_stat_def)
     (simp_all add: photo_def str_lit_def)

lemma encode_ascii: "list_all (\<lambda>c. c < 128) s \<Longrightarrow> encode s = Inr s"
  by (induction s) (simp_all add: utf8_char_def)

lemma demo_md5:
  "md5_hexdigest demo_env bs = str_lit ''d41d8cd98f00b204e9800998ecf8427e''"
  "md5_hexdigest no_thumb_env bs = str_lit ''d41d8cd98f00b204e9800998ecf8427e''"
  by (simp_all add: demo_env_def no_thumb_env_def)

lemma demo_encode:
  "encode (str_lit ''photo.jpg_1700000000.5'') = Inr (str_lit ''photo.jpg_1700000000.5'')"
  by (rule encode_ascii) (simp add: str_lit_def)

lemma demo_filename:
  "generate_filename demo_env photo (str_lit ''webp'') = Inr (str_lit ''img_d41d8cd98f00.webp'')"
  "generate_filename no_thumb_env photo (str_lit ''webp'') = Inr (str_lit ''img_d41d8cd98f00.webp'')"
  "generate_filename demo_env photo (str_lit ''png'') = Inr (str_lit ''img_d41d8cd98f00.png'')"
  by (simp_all add: generate_filename_def demo_hash_input demo_encode demo_md5)
     (simp_all add: str_lit_def py_lower_def)

lemma demo_store_path: "get_image_store_path default_config None = demo_store"
  by (simp add: get_image_store_path_def get_workspace_path_def or_else_def path_join_def
      default_config_def demo_store_def str_lit_def)

lemma demo_image_save:
  "image_save demo_env img p f q = Inr 2048" "image_save no_thumb_env img p f q = Inr 2048"
  by (simp_all add: demo_env_def no_thumb_env_def)

lemma demo_save:
  "save_image default_config demo_env img photo None (str_lit ''webp'')
     = Inr (path_join demo_store (str_lit ''img_d41d8cd98f00.webp''), 2048)"
  "save_image default_config no_thumb_env img photo None (str_lit ''webp'')
     = Inr (path_join demo_store (str_lit ''img_d41d8cd98f00.webp''), 2048)"
  "save_image default_config demo_env img photo None (str_lit ''png'')
     = Inr (path_join demo_store (str_lit ''img_d41d8cd98f00.png''), 2048)"
  by (simp_all add: save_image_def demo_dirs demo_filename demo_store_path demo_image_save
      Let_def split: prod.splits)

lemma demo_default_format:
  "or_else None (str_lit (default_output_format default_config)) = str_lit ''webp''"
  "or_else (Some (str_lit ''png'')) (str_lit (default_output_format default_config)) = str_lit ''png''"
  by (simp_all add: or_else_def default_config_def str_lit_def)

lemma demo_open: "image_open demo_env p = Inr rgba_500" "image_open no_thumb_env p = Inr rgba_500"
  by (simp_all add: demo_env_def no_thumb_env_def)

lemma demo_exts: "[] \<notin> set (supported_extensions default_config)"
  by (simp add: default_config_def)

lemma no_thumb_body:
  "thumbnail_body default_config no_thumb_env img name ws = Inl OSError"
  by (simp add: thumbnail_body_def no_thumb_env_def demo_env_def Let_def)

section \<open>Metadata fallback\<close>

text \<open>
  C1. The claim: when a step of metadata extraction raises, \<open>create_image_metadata\<close>
  returns a minimal, zeroed metadata value. The code: the \<open>except\<close> branch builds
  that value with \<open>file_size=0\<close>, which \<open>validate_positive\<close> refuses, so the
  fallback itself raises. For a file path that does not exist the basic file size is
  0, the first construction raises, and so does the fallback.
\<close>

theorem create_image_metadata_missing_file_raises:
  "create_image_metadata default_config demo_env rgba_500 (str_lit ''missing.png'')
     (Some (500, 500)) = Inl ValidationError"
  by (simp add: create_image_metadata_def extract_basic_metadata_def path_exists_def
      demo_env_def str_lit_def new_ImageMetadata_def validate_positive_def Let_def rgba_500_def)

section \<open>Thumbnails\<close>

text \<open>
  C6. Thumbnail failure is not fatal. For a request whose file passes validation, whose
  image decodes (with positive dimensions), normalizes and is saved, and whose
  thumbnail body raises any exception \<open>e\<close>: \<open>create_thumbnail\<close> returns \<open>None\<close>
  and the pipeline returns a completed Document for the saved artifact whose single
  page has no thumbnail path. (The allow-list of extensions must not contain the
  empty extension, so that the title taken from the file name is not blank.)
\<close>

theorem thumbnail_failure_nonfatal:
  assumes v: "validate_file cfg os p = Inr ()"
    and d: "ensure_directories cfg os ws = Inr ()"
    and l: "image_open os p = Inr img"
    and pos: "0 < im_width img" "0 < im_height img"
    and o: "optimize_image cfg os img = Inr opt"
    and s: "save_image cfg os opt p ws (or_else fmt (str_lit (default_output_format cfg)))
              = Inr (saved, sz)"
    and t: "thumbnail_body cfg os opt (path_name saved) ws = Inl e"
    and ext: "[] \<notin> set (supported_extensions cfg)"
  shows "create_thumbnail cfg os opt (path_name saved) ws = None
         \<and> (\<exists>doc. fst (process_sync cfg os p ws fmt ident) = Inr doc
                \<and> status doc = COMPLETED \<and> file_path doc = saved
                \<and> map thumbnail_path (pages doc) = [None])"
proof -
  have ct: "create_thumbnail cfg os opt (path_name saved) ws = None"
    using t by (simp add: create_thumbnail_def)
  from process_sync_succeeds [OF v d l pos o s ext, of ident]
  obtain doc where ps:
    "process_sync cfg os p ws fmt ident =
       (Inr doc, [Decode, Normalize, Persist]
                 @ (if enable_thumbnails cfg then [Thumbnail] else []) @ [Metadata])"
    and props: "status doc = COMPLETED" "file_path doc = saved"
    and th: "map thumbnail_path (pages doc) =
       [if enable_thumbnails cfg then create_thumbnail cfg os opt (path_name saved) ws
        else None]"
    by (elim exE conjE)
  have f: "fst (process_sync cfg os p ws fmt ident) = Inr doc"
    by (simp only: ps fst_conv)
  have th': "map thumbnail_path (pages doc) = [None]"
    by (simp only: th ct if_cancel)
  have "fst (process_sync cfg os p ws fmt ident) = Inr doc \<and> status doc = COMPLETED
      \<and> file_path doc = saved \<and> map thumbnail_path (pages doc) = [None]"
    by (intro conjI f props th')
  then have "\<exists>doc. fst (process_sync cfg os p ws fmt ident) = Inr doc
      \<and> status doc = COMPLETED
      \<and> file_path doc = saved \<and> map thumbnail_path (pages doc) = [None]"
    by (rule exI)
  with ct show ?thesis by (rule conjI)
qed

theorem thumbnail_failure_nonfatal_witness:
  "create_thumbnail default_config no_thumb_env (rgba_500_flat)
     (path_name (path_join demo_store (str_lit ''img_d41d8cd98f00.webp''))) None = None
   \<and> (\<exists>doc. fst (process_sync default_config no_thumb_env photo None None None) = Inr doc
          \<and> status doc = COMPLETED
          \<and> file_path doc = path_join demo_store (str_lit ''img_d41d8cd98f00.webp'')
          \<and> map thumbnail_path (pages doc) = [None])"
proof -
  have pos: "0 < im_width rgba_500" "0 < im_height rgba_500"
    by (simp_all add: rgba_500_def)
  have s: "save_image default_config no_thumb_env (rgba_500_flat) photo None
             (or_else None (str_lit (default_output_format default_config)))
           = Inr (path_join demo_store (str_lit ''img_d41d8cd98f00.webp''), 2048)"
    by (simp only: demo_default_format demo_save)
  show ?thesis
    by (rule thumbnail_failure_nonfatal
          [OF no_thumb_validate demo_dirs(2) demo_open(2) pos demo_optimize(2) s no_thumb_body
              demo_exts])
qed

section \<open>Documents\<close>

lemma demo_process_sync:
  "\<exists>doc. process_sync default_config demo_env photo None None ident =
            (Inr doc, [Decode, Normalize, Persist, Thumbnail, Metadata])
          \<and> status doc = COMPLETED \<and> num_pages doc = 1 \<and> length (pages doc) = 1"
proof -
  have pos: "0 < im_width rgba_500" "0 < im_height rgba_500"
    by (simp_all add: rgba_500_def)
  have s: "save_image default_config demo_env (rgba_500_flat) photo None
             (or_else None (str_lit (default_output_format default_config)))
           = Inr (path_join demo_store (str_lit ''img_d41d8cd98f00.webp''), 2048)"
    by (simp only: demo_default_format demo_save)
  have en: "enable_thumbnails default_config" by (simp add: default_config_def)
  from process_sync_succeeds
         [OF demo_validate demo_dirs(1) demo_open(1) pos demo_optimize(1) s demo_exts, of ident]
  obtain doc where ps:
    "process_sync default_config demo_env photo None None ident =
       (Inr doc, [Decode, Normalize, Persist]
          @ (if enable_thumbnails default_config then [Thumbnail] else []) @ [Metadata])"
    and props: "status doc = COMPLETED" "num_pages doc = 1" "length (pages doc) = 1"
    by (elim exE conjE)
  have ps': "process_sync default_config demo_env photo None None ident =
            (Inr doc, [Decode, Normalize, Persist, Thumbnail, Metadata])"
    using ps en by simp
  have "process_sync default_config demo_env photo None None ident =
            (Inr doc, [Decode, Normalize, Persist, Thumbnail, Metadata])
          \<and> status doc = COMPLETED \<and> num_pages doc = 1 \<and> length (pages doc) = 1"
    by (intro conjI ps' props)
  then show ?thesis by (rule exI)
qed

text \<open>
  C8. A Document that was constructed has \<open>num_pages\<close> equal to the length of its
  page list (the constructor refuses any other), and a Document returned by the
  pipeline has exactly one page and \<open>num_pages = 1\<close>.
\<close>

theorem document_num_pages:
  "(new_Document u now i t p n pgs st md = Inr d \<longrightarrow> num_pages d = int (length (pages d)))
   \<and> (fst (process_sync cfg os fp ws fmt ident) = Inr d'
        \<longrightarrow> num_pages d' = int (length (pages d')) \<and> num_pages d' = 1)"
proof (intro conjI impI)
  assume "new_Document u now i t p n pgs st md = Inr d"
  from new_Document_num_pages' [OF this] show "num_pages d = int (length (pages d))" ..
next
  assume "fst (process_sync cfg os fp ws fmt ident) = Inr d'"
  from process_sync_doc [OF this] obtain page where
    "create_document os page fp ident = Inr d'" ..
  from create_document_pages [OF this]
  have np: "num_pages d' = 1" and lp: "length (pages d') = 1" by blast+
  show "num_pages d' = int (length (pages d'))" by (simp add: np lp)
  show "num_pages d' = 1" by (rule np)
qed


theorem document_num_pages_witness:
  "\<exists>d d'. new_Document (uuid4_hex demo_env) (datetime_now demo_env) None
             (str_lit ''photo.jpg'') (image_path demo_page) 1 [demo_page] COMPLETED [] = Inr d
          \<and> num_pages d = int (length (pages d))
          \<and> fst (process_sync default_config demo_env photo None None None) = Inr d'
          \<and> num_pages d' = int (length (pages d')) \<and> num_pages d' = 1"
proof -
  have nb: "\<not> blank (str_lit ''photo.jpg'')"
    by (rule not_blank_mem [of 46]) (simp_all add: str_lit_def py_isspace_def)
  obtain d where d: "new_Document (uuid4_hex demo_env) (datetime_now demo_env) None
             (str_lit ''photo.jpg'') (image_path demo_page) 1 [demo_page] COMPLETED [] = Inr d"
    using nb by (simp add: new_Document_def validate_pages_count_def Let_def)
  from demo_process_sync [of None] obtain d' where
    ps: "process_sync default_config demo_env photo None None None =
            (Inr d', [Decode, Normalize, Persist, Thumbnail, Metadata])"
    by (elim exE conjE)
  have f: "fst (process_sync default_config demo_env photo None None None) = Inr d'"
    by (simp only: ps fst_conv)
  from document_num_pages [of "uuid4_hex demo_env" "datetime_now demo_env" None
      "str_lit ''photo.jpg''" "image_path demo_page" 1 "[demo_page]" COMPLETED "[]" d
      default_config demo_env photo None None None d'] d f
  have "new_Document (uuid4_hex demo_env) (datetime_now demo_env) None
             (str_lit ''photo.jpg'') (image_path demo_page) 1 [demo_page] COMPLETED [] = Inr d
          \<and> num_pages d = int (length (pages d))
          \<and> fst (process_sync default_config demo_env photo None None None) = Inr d'
          \<and> num_pages d' = int (length (pages d')) \<and> num_pages d' = 1"
    by blast
  then show ?thesis by (intro exI)
qed

text \<open>
  C9, as the code has it. The id of the Document the orchestrator returns is the
  caller's \<open>document_id\<close> when that is a non-empty string; with none (or an empty
  one) it is \<open>doc_img_\<close> followed by the decimal Unix time in whole seconds.
\<close>

theorem process_sync_document_id:
  assumes "fst (process_sync cfg os fp ws fmt ident) = Inr d"
  shows "doc_id d =
           (case ident of
              None \<Rightarrow> str_lit ''doc_img_'' @ str_int (time_now os)
            | Some i \<Rightarrow> if i = [] then str_lit ''doc_img_'' @ str_int (time_now os) else i)"
proof -
  from process_sync_doc [OF assms] obtain page where
    "create_document os page fp ident = Inr d" ..
  from create_document_pages [OF this]
  have "doc_id d = or_else ident (str_lit ''doc_img_'' @ str_int (time_now os))" by blast
  then show ?thesis by (simp add: or_else_def split: option.splits)
qed

theorem process_sync_document_id_witness:
  "\<exists>d. fst (process_sync default_config demo_env photo None None (Some (str_lit ''my-doc'')))
          = Inr d
        \<and> doc_id d = str_lit ''my-doc''"
proof -
  from demo_process_sync [of "Some (str_lit ''my-doc'')"] obtain d where
    ps: "process_sync default_config demo_env photo None None (Some (str_lit ''my-doc'')) =
            (Inr d, [Decode, Normalize, Persist, Thumbnail, Metadata])"
    by (elim exE conjE)
  have f: "fst (process_sync default_config demo_env photo None None
                  (Some (str_lit ''my-doc''))) = Inr d"
    by (simp only: ps fst_conv)
  from process_sync_document_id [OF f] have "doc_id d = str_lit ''my-doc''"
    by (simp add: str_lit_def)
  with f show ?thesis by blast
qed

text \<open>
  The claim as the spec words it fails: with no \<open>document_id\<close>, at clock
  1700000000, the id is \<open>doc_img_1700000000\<close>, which is not \<open>doc_\<close> followed by a
  hex token.
\<close>

theorem process_sync_generated_id_not_hex:
  "\<exists>d. fst (process_sync default_config demo_env photo None None None) = Inr d
        \<and> doc_id d = str_lit ''doc_img_1700000000''
        \<and> \<not> random_hex_token_id (doc_id d)"
proof -
  from demo_process_sync [of None] obtain d where
    ps: "process_sync default_config demo_env photo None None None =
            (Inr d, [Decode, Normalize, Persist, Thumbnail, Metadata])"
    by (elim exE conjE)
  have f: "fst (process_sync default_config demo_env photo None None None) = Inr d"
    by (simp only: ps fst_conv)
  from process_sync_doc [OF f] obtain page where
    "create_document demo_env page photo None = Inr d" ..
  from create_document_pages [OF this]
  have "doc_id d = or_else None (str_lit ''doc_img_'' @ str_int (time_now demo_env))" by blast
  then have i: "doc_id d = str_lit ''doc_img_1700000000''"
    by (simp add: or_else_def demo_env_def demo_id)
  have "\<not> random_hex_token_id (str_lit ''doc_img_1700000000'')"
    by (simp add: random_hex_token_id_def is_hex_digit_def str_lit_def)
  with f i show ?thesis by simp
qed

section \<open>Requested output format\<close>









section \<open>Transparency\<close>

lemma convert_mode_rgba:
  "im_mode img = ''RGBA'' \<Longrightarrow>
     convert_mode os img =
       Inr (pil_paste (pil_new ''RGB'' (im_size img) (255, 255, 255)) img
              (Some (pil_last_band img)))"
  by (simp add: convert_mode_def)

lemma convert_mode_la:
  "im_mode img = ''LA'' \<Longrightarrow>
     convert_mode os img =
       Inr (pil_paste (pil_new ''RGB'' (im_size img) (255, 255, 255)) img None)"
  by (simp add: convert_mode_def)

lemma la_within:
  "im_width la_100 \<le> max_width default_config" "im_height la_100 \<le> max_height default_config"
  by (simp_all add: la_100_def default_config_def)

lemma la_mode: "im_mode la_100 = ''LA''"
  by (simp add: la_100_def)

lemma la_optimize:
  "optimize_image default_config demo_env la_100 =
     Inr (pil_paste (pil_new ''RGB'' (im_size la_100) (255, 255, 255)) la_100 None)"
  by (rule optimize_image_within [OF la_within convert_mode_la [OF la_mode]])

text \<open>
  C3. The claim: an image with an alpha channel (RGBA or LA) is composited onto white
  through its alpha channel as mask. The code: only mode RGBA is pasted with the
  mask; an LA image falls into the \<open>else\<close> branch and is pasted with no mask, so its
  alpha band is never read. The result is still an RGB image.
\<close>

theorem optimize_image_la_ignores_alpha:
  "\<exists>out. optimize_image default_config demo_env la_100 = Inr out
         \<and> im_mode out = ''RGB''
         \<and> im_pixels out = Paste (Fill (255, 255, 255)) (Source (str_lit ''gray.png'')) None"
proof -
  have m: "im_mode (pil_paste (pil_new ''RGB'' (im_size la_100) (255, 255, 255)) la_100 None)
             = ''RGB''"
    by (simp add: pil_paste_def pil_new_def)
  have px: "im_pixels (pil_paste (pil_new ''RGB'' (im_size la_100) (255, 255, 255)) la_100 None)
             = Paste (Fill (255, 255, 255)) (Source (str_lit ''gray.png'')) None"
    by (simp add: pil_paste_def pil_new_def la_100_def)
  show ?thesis by (rule exI, intro conjI, rule la_optimize, rule m, rule px)
qed

section \<open>Artifact names\<close>



lemma encode_surrogate: "encode (56448 # s) = Inl UnicodeEncodeError"
  by (simp add: utf8_char_def)























section \<open>Scaling down\<close>

lemma bit_length_0 [simp]: "bit_length 0 = 0"
  by (simp add: bit_length.simps)

lemma bit_length_Suc_0 [simp]: "bit_length (Suc 0) = Suc 0"
  by (subst bit_length.simps) simp

lemma bit_length_numeral [simp]:
  "bit_length (numeral k) = Suc (bit_length (numeral k div 2))"
  by (subst bit_length.simps) simp

lemma ratio_w: "int_truediv 2048 4000 = Inr (Float 4611686018427388 (- 53))"
  by (simp add: int_truediv_def Let_def round_half_even_div_def)

lemma ratio_h: "int_truediv 2048 3001 = Inr (Float 6146865735991187 (- 53))"
  by (simp add: int_truediv_def Let_def round_half_even_div_def)

lemma ratio_min:
  "py_min (Float 4611686018427388 (- 53)) (Float 6146865735991187 (- 53))
     = Float 4611686018427388 (- 53)"
  by (simp add: py_min_def float_less_def)

lemma float_4000: "round_to_double 4000 0 = Float 4000 0"
  by (simp add: round_to_double_def Let_def)

lemma float_3001: "round_to_double 3001 0 = Float 3001 0"
  by (simp add: round_to_double_def Let_def)

lemma bits_w: "bit_length 18446744073709552000 = 65"
  by simp

lemma bits_h: "bit_length 13839669741300591388 = 64"
  by simp

lemma round_w: "round_to_double 18446744073709552000 (- 53) = Float 4503599627370496 (- 41)"
  by (simp add: round_to_double_def Let_def bits_w round_half_even_div_def
      del: bit_length_numeral)

lemma round_h: "round_to_double 13839669741300591388 (- 53) = Float 6757651240869429 (- 42)"
  by (simp add: round_to_double_def Let_def bits_h round_half_even_div_def
      del: bit_length_numeral)

lemma mul_w: "int_mul_float 4000 (Float 4611686018427388 (- 53)) = Float 4503599627370496 (- 41)"
  by (simp add: int_mul_float_def float_4000 round_w del: bit_length_numeral)

lemma mul_h: "int_mul_float 3001 (Float 4611686018427388 (- 53)) = Float 6757651240869429 (- 42)"
  by (simp add: int_mul_float_def float_3001 round_h del: bit_length_numeral)

lemma trunc_w: "int_of_float (Float 4503599627370496 (- 41)) = 2048"
  by (simp add: int_of_float_def Let_def)

lemma trunc_h: "int_of_float (Float 6757651240869429 (- 42)) = 1536"
  by (simp add: int_of_float_def Let_def)

lemma nearest_w: "round_of_float (Float 4503599627370496 (- 41)) = 2048"
  by (simp add: round_of_float_def Let_def round_half_even_div_def)

lemma nearest_h: "round_of_float (Float 6757651240869429 (- 42)) = 1537"
  by (simp add: round_of_float_def Let_def round_half_even_div_def)


lemma float_val_nonneg_exp:
  "0 \<le> e \<Longrightarrow> float_val (Float m e) = of_int (m * 2 ^ nat e)"
  by (simp add: float_val_def power_int_def)

lemma float_val_neg_exp:
  "e < 0 \<Longrightarrow> float_val (Float m e) = of_int m / of_int (2 ^ nat (- e))"
  by (simp add: float_val_def power_int_def field_simps)

lemma int_of_float_trunc:
  "int_of_float x =
     (if 0 \<le> float_val x then \<lfloor>float_val x\<rfloor> else \<lceil>float_val x\<rceil>)"
proof (cases x)
  case (Float m e)
  show ?thesis
  proof (cases "0 \<le> e")
    case True
    have i: "int_of_float (Float m e) = m * 2 ^ nat e"
      using True by (simp add: int_of_float_def)
    show ?thesis
      unfolding Float float_val_nonneg_exp [OF True] i
      by (simp only: floor_of_int ceiling_of_int if_cancel)
  next
    case False
    then have e: "e < 0" by simp
    define d :: int where "d = 2 ^ nat (- e)"
    have dpos: "0 < d" by (simp add: d_def)
    have v: "float_val (Float m e) = of_int m / of_int d"
      unfolding d_def by (rule float_val_neg_exp [OF e])
    have i: "int_of_float (Float m e) = sgn m * (\<bar>m\<bar> div d)"
      using e by (simp add: int_of_float_def d_def)
    show ?thesis
    proof (cases "0 \<le> m")
      case True
      then have "0 \<le> (of_int m / of_int d :: rat)" using dpos by simp
      moreover have "sgn m * (\<bar>m\<bar> div d) = m div d"
        using True by (cases "m = 0") (simp_all add: sgn_if)
      ultimately show ?thesis
        unfolding Float v i by (simp add: floor_divide_of_int_eq)
    next
      case False
      then have neg: "m < 0" by simp
      then have "(of_int m / of_int d :: rat) < 0" using dpos by (simp add: divide_neg_pos)
      moreover have "\<lceil>(of_int m / of_int d :: rat)\<rceil> = - ((- m) div d)"
      proof -
        have "- (of_int m / of_int d :: rat) = of_int (- m) / of_int d" by simp
        then have "\<lfloor>- (of_int m / of_int d :: rat)\<rfloor> = (- m) div d"
          by (simp only: floor_divide_of_int_eq)
        then show ?thesis by (simp only: ceiling_def)
      qed
      moreover have "sgn m * (\<bar>m\<bar> div d) = - ((- m) div d)"
        using neg by (simp add: sgn_if)
      ultimately show ?thesis
        unfolding Float v i by simp
    qed
  qed
qed


lemma resize_if_large_big:
  assumes big: "max_width cfg < im_width c \<or> max_height cfg < im_height c"
    and rw: "int_truediv (max_width cfg) (im_width c) = Inr rw"
    and rh: "int_truediv (max_height cfg) (im_height c) = Inr rh"
  shows "resize_if_large cfg c =
           pil_resize c
             (int_of_float (int_mul_float (im_width c) (py_min rw rh)),
              int_of_float (int_mul_float (im_height c) (py_min rw rh))) LANCZOS"
  using big by (simp add: resize_if_large_def pdf_max_image_size_def rw rh Let_def)

text \<open>
  C2, as the code has it. For an image wider or higher than the configured maximum
  whose mode step succeeds: the ratio is the smaller of the float quotients
  \<open>max_width / width\<close> and \<open>max_height / height\<close>, both dimensions are multiplied by
  that one ratio, and each product is truncated toward zero by \<open>int()\<close> (the floor,
  for a product that is not negative), not rounded to the nearest integer. When both
  truncated dimensions are at least one pixel, the result is the mode-normalized image
  resampled to that size with the Lanczos filter.
\<close>

theorem optimize_image_scales_down:
  assumes c: "convert_mode os img = Inr c"
    and big: "max_width cfg < im_width img \<or> max_height cfg < im_height img"
    and rw: "int_truediv (max_width cfg) (im_width img) = Inr rw"
    and rh: "int_truediv (max_height cfg) (im_height img) = Inr rh"
    and nw: "new_width = int_of_float (int_mul_float (im_width img) (py_min rw rh))"
    and nh: "new_height = int_of_float (int_mul_float (im_height img) (py_min rw rh))"
    and one: "1 \<le> new_width" "1 \<le> new_height"
  shows "optimize_image cfg os img =
           Inr (c\<lparr>im_width := new_width, im_height := new_height, im_format := None,
                  im_pixels := Resample LANCZOS (new_width, new_height) (im_pixels c)\<rparr>)
         \<and> new_width = \<lfloor>float_val (int_mul_float (im_width img) (py_min rw rh))\<rfloor>
         \<and> new_height = \<lfloor>float_val (int_mul_float (im_height img) (py_min rw rh))\<rfloor>"
proof -
  from convert_mode_size [OF c]
  have sz: "im_width c = im_width img" "im_height c = im_height img"
    by (simp_all add: im_size_def)
  have "resize_if_large cfg c = pil_resize c (new_width, new_height) LANCZOS"
    using resize_if_large_big [of cfg c rw rh] big rw rh by (simp add: sz nw nh)
  also have "\<dots> = Inr (c\<lparr>im_width := new_width, im_height := new_height, im_format := None,
                  im_pixels := Resample LANCZOS (new_width, new_height) (im_pixels c)\<rparr>)"
    using one by (simp add: pil_resize_def)
  finally have r: "resize_if_large cfg c =
      Inr (c\<lparr>im_width := new_width, im_height := new_height, im_format := None,
             im_pixels := Resample LANCZOS (new_width, new_height) (im_pixels c)\<rparr>)" .
  have o: "optimize_image cfg os img =
           Inr (c\<lparr>im_width := new_width, im_height := new_height, im_format := None,
                  im_pixels := Resample LANCZOS (new_width, new_height) (im_pixels c)\<rparr>)"
    by (simp add: optimize_image_def c r)
  have fl: "\<And>x. 1 \<le> int_of_float x \<Longrightarrow> int_of_float x = \<lfloor>float_val x\<rfloor>"
  proof -
    fix x assume a: "1 \<le> int_of_float x"
    show "int_of_float x = \<lfloor>float_val x\<rfloor>"
    proof (cases "0 \<le> float_val x")
      case True
      then show ?thesis by (simp add: int_of_float_trunc)
    next
      case False
      then have "int_of_float x = \<lceil>float_val x\<rceil>" by (simp add: int_of_float_trunc)
      moreover from False have "\<lceil>float_val x\<rceil> \<le> 0" by (simp add: ceiling_le_zero)
      ultimately show ?thesis using a by simp
    qed
  qed
  have w: "new_width = \<lfloor>float_val (int_mul_float (im_width img) (py_min rw rh))\<rfloor>"
    using one(1) unfolding nw by (rule fl)
  have h: "new_height = \<lfloor>float_val (int_mul_float (im_height img) (py_min rw rh))\<rfloor>"
    using one(2) unfolding nh by (rule fl)
  show ?thesis by (intro conjI o w h)
qed

lemma rgb_convert: "convert_mode os rgb_4000_3001 = Inr rgb_4000_3001"
  by (simp add: convert_mode_def rgb_4000_3001_def)

lemma rgb_dims: "im_width rgb_4000_3001 = 4000" "im_height rgb_4000_3001 = 3001"
  "max_width default_config = 2048" "max_height default_config = 2048"
  by (simp_all add: rgb_4000_3001_def default_config_def)

lemma rgb_optimize:
  "optimize_image default_config demo_env rgb_4000_3001 =
     Inr (rgb_4000_3001\<lparr>im_width := 2048, im_height := 1536, im_format := None,
            im_pixels := Resample LANCZOS (2048, 1536) (im_pixels rgb_4000_3001)\<rparr>)"
proof -
  have "resize_if_large default_config rgb_4000_3001 =
          pil_resize rgb_4000_3001 (2048, 1536) LANCZOS"
    by (simp add: resize_if_large_def pdf_max_image_size_def rgb_dims ratio_w ratio_h ratio_min
        mul_w mul_h trunc_w trunc_h del: bit_length_numeral)
  then show ?thesis
    by (simp add: optimize_image_def rgb_convert pil_resize_def)
qed

theorem optimize_image_scales_down_witness:
  "convert_mode demo_env rgb_4000_3001 = Inr rgb_4000_3001
   \<and> (max_width default_config < im_width rgb_4000_3001
        \<or> max_height default_config < im_height rgb_4000_3001)
   \<and> int_truediv (max_width default_config) (im_width rgb_4000_3001)
        = Inr (Float 4611686018427388 (- 53))
   \<and> int_truediv (max_height default_config) (im_height rgb_4000_3001)
        = Inr (Float 6146865735991187 (- 53))
   \<and> optimize_image default_config demo_env rgb_4000_3001 =
        Inr (rgb_4000_3001\<lparr>im_width := 2048, im_height := 1536, im_format := None,
               im_pixels := Resample LANCZOS (2048, 1536) (im_pixels rgb_4000_3001)\<rparr>)"
proof -
  have big: "max_width default_config < im_width rgb_4000_3001
        \<or> max_height default_config < im_height rgb_4000_3001"
    by (simp add: rgb_dims)
  have rw: "int_truediv (max_width default_config) (im_width rgb_4000_3001)
        = Inr (Float 4611686018427388 (- 53))"
    by (simp only: rgb_dims ratio_w)
  have rh: "int_truediv (max_height default_config) (im_height rgb_4000_3001)
        = Inr (Float 6146865735991187 (- 53))"
    by (simp only: rgb_dims ratio_h)
  have nw: "2048 = int_of_float (int_mul_float (im_width rgb_4000_3001)
              (py_min (Float 4611686018427388 (- 53)) (Float 6146865735991187 (- 53))))"
    by (simp only: rgb_dims ratio_min mul_w trunc_w)
  have nh: "1536 = int_of_float (int_mul_float (im_height rgb_4000_3001)
              (py_min (Float 4611686018427388 (- 53)) (Float 6146865735991187 (- 53))))"
    by (simp only: rgb_dims ratio_min mul_h trunc_h)
  have o: "optimize_image default_config demo_env rgb_4000_3001 =
        Inr (rgb_4000_3001\<lparr>im_width := 2048, im_height := 1536, im_format := None,
               im_pixels := Resample LANCZOS (2048, 1536) (im_pixels rgb_4000_3001)\<rparr>)"
    by (rule optimize_image_scales_down [OF rgb_convert big rw rh nw nh, THEN conjunct1])
       simp_all
  show ?thesis by (intro conjI rgb_convert big rw rh o)
qed

text \<open>
  The claim as stated fails: the 4000 x 3001 image comes out 2048 x 1536, where
  rounding the same products to the nearest integer gives 2048 x 1537.
\<close>

theorem optimize_image_truncates:
  "\<exists>out. optimize_image default_config demo_env rgb_4000_3001 = Inr out
         \<and> im_size out = (2048, 1536)
         \<and> spec_rounded_size default_config rgb_4000_3001 = Inr (2048, 1537)"
proof -
  have sz: "im_size (rgb_4000_3001\<lparr>im_width := 2048, im_height := 1536, im_format := None,
               im_pixels := Resample LANCZOS (2048, 1536) (im_pixels rgb_4000_3001)\<rparr>)
            = (2048, 1536)"
    by (simp add: im_size_def)
  have sp: "spec_rounded_size default_config rgb_4000_3001 = Inr (2048, 1537)"
    by (simp add: spec_rounded_size_def rgb_dims ratio_w ratio_h ratio_min mul_w mul_h
        nearest_w nearest_h del: bit_length_numeral)
  show ?thesis by (rule exI, intro conjI, rule rgb_optimize, rule sz, rule sp)
qed

end
